theory Spec2Isabelle
  imports Complex_Main "HOL-Library.Word"
begin

unbundle bit_operations_syntax

section \<open>Data model of \<open>_align.pyx\<close>\<close>

text \<open>
  The C \<open>int\<close> values of the source are modelled as unbounded \<open>int\<close> (signed overflow is
  undefined in C and no input of realistic size reaches it). The C \<open>double\<close>
  \<open>max_error_rate\<close> is modelled as the real number it denotes and its products are
  exact. A Python \<open>str\<close> is a \<open>string\<close>; a character is ASCII when its code is below
  128, and \<open>bytes\<close> are lists of byte values.
\<close>

datatype error = ValueError string | UnicodeEncodeError | AssertionError | IndexError

record Entry =
  cost :: int
  matches :: int
  origin :: int

text \<open>\<open>_Match\<close> has the three fields of \<open>_Entry\<close> and two more.\<close>

record Match = Entry +
  ref_stop :: int
  query_stop :: int

type_synonym bytes = "nat list"

subsection \<open>Translation tables\<close>

definition table_of :: "(char \<times> nat) list \<Rightarrow> nat \<Rightarrow> nat" where
  "table_of d b = (case map_of (map (\<lambda>(c, v). (of_char c :: nat, v)) d) b of
      None \<Rightarrow> 0 | Some v \<Rightarrow> v)"

definition ACGT_TABLE :: "nat \<Rightarrow> nat" where
  "ACGT_TABLE = table_of
     [(CHR ''A'', 1), (CHR ''a'', 1), (CHR ''C'', 2), (CHR ''c'', 2),
      (CHR ''G'', 4), (CHR ''g'', 4), (CHR ''T'', 8), (CHR ''t'', 8),
      (CHR ''U'', 8), (CHR ''u'', 8)]"

definition IUPAC_TABLE :: "nat \<Rightarrow> nat" where
  "IUPAC_TABLE = table_of
     [(CHR ''X'', 0), (CHR ''x'', 0), (CHR ''A'', 1), (CHR ''a'', 1),
      (CHR ''C'', 2), (CHR ''c'', 2), (CHR ''G'', 4), (CHR ''g'', 4),
      (CHR ''T'', 8), (CHR ''t'', 8), (CHR ''U'', 8), (CHR ''u'', 8),
      (CHR ''R'', 1 OR 4), (CHR ''r'', 1 OR 4), (CHR ''Y'', 2 OR 8), (CHR ''y'', 2 OR 8),
      (CHR ''S'', 4 OR 2), (CHR ''s'', 4 OR 2), (CHR ''W'', 1 OR 8), (CHR ''w'', 1 OR 8),
      (CHR ''K'', 4 OR 8), (CHR ''k'', 4 OR 8), (CHR ''M'', 1 OR 2), (CHR ''m'', 1 OR 2),
      (CHR ''B'', 2 OR 4 OR 8), (CHR ''b'', 2 OR 4 OR 8),
      (CHR ''D'', 1 OR 4 OR 8), (CHR ''d'', 1 OR 4 OR 8),
      (CHR ''H'', 1 OR 2 OR 8), (CHR ''h'', 1 OR 2 OR 8),
      (CHR ''V'', 1 OR 2 OR 4), (CHR ''v'', 1 OR 2 OR 4),
      (CHR ''N'', 1 OR 2 OR 4 OR 8), (CHR ''n'', 1 OR 2 OR 4 OR 8)]"

definition translate :: "bytes \<Rightarrow> (nat \<Rightarrow> nat) \<Rightarrow> bytes" where
  "translate bs t = map t bs"

text \<open>\<open>s.encode('ascii')\<close>: raises on a character that is not ASCII.\<close>

definition is_ascii :: "string \<Rightarrow> bool" where
  "is_ascii s = list_all (\<lambda>c. (of_char c :: nat) < 128) s"

definition encode_ascii :: "string \<Rightarrow> error + bytes" where
  "encode_ascii s = (if is_ascii s then Inr (map of_char s) else Inl UnicodeEncodeError)"

subsection \<open>The debugging matrix\<close>

record DPMatrix =
  rows :: "int option list list"
  dp_reference :: string
  dp_query :: string

definition DPMatrix_init :: "string \<Rightarrow> string \<Rightarrow> DPMatrix" where
  "DPMatrix_init reference query =
     \<lparr>rows = replicate (length reference + 1) (replicate (length query + 1) None),
      dp_reference = reference, dp_query = query\<rparr>"

text \<open>\<open>set_entry\<close> does \<open>self._rows[i][j] = cost\<close>, which raises outside the matrix
  (\<open>locate\<close> passes no negative index). \<open>put_entry\<close> is the assignment alone; \<open>locate\<close>
  is modelled with it where its writes are inside the matrix, which is shown below.\<close>

definition put_entry :: "DPMatrix \<Rightarrow> nat \<Rightarrow> nat \<Rightarrow> int \<Rightarrow> DPMatrix" where
  "put_entry dm i j c = dm\<lparr>rows := (rows dm)[i := (rows dm ! i)[j := Some c]]\<rparr>"

definition set_entry :: "DPMatrix \<Rightarrow> nat \<Rightarrow> nat \<Rightarrow> int \<Rightarrow> error + DPMatrix" where
  "set_entry dm i j c =
     (if i < length (rows dm) \<and> j < length (rows dm ! i) then Inr (put_entry dm i j c)
      else Inl IndexError)"

subsection \<open>The aligner\<close>

record aligner =
  self_m :: int
  max_error_rate :: real
  start_in_reference :: bool
  start_in_query :: bool
  stop_in_reference :: bool
  stop_in_query :: bool
  insertion_cost :: int
  deletion_cost :: int
  min_overlap :: int
  wildcard_ref :: bool
  wildcard_query :: bool
  debug :: bool
  dpmatrix :: "DPMatrix option"
  reference :: bytes
  str_reference :: string

text \<open>The setter of the \<open>reference\<close> property. Allocation is taken to succeed. The source
  resizes the column buffer before it encodes the string, so after an assignment that
  fails on a character that is not ASCII the buffer no longer fits the reference that is
  kept; the model has no buffer, and only successful assignments are followed below.\<close>

definition set_reference :: "aligner \<Rightarrow> string \<Rightarrow> (error + unit) \<times> aligner" where
  "set_reference a r =
     (case encode_ascii r of
        Inl e \<Rightarrow> (Inl e, a)
      | Inr bs \<Rightarrow>
          (Inr (),
           a\<lparr>reference :=
                (if wildcard_ref a then translate bs IUPAC_TABLE
                 else if wildcard_query a then translate bs ACGT_TABLE
                 else bs),
              self_m := int (length r),
              str_reference := r\<rparr>))"

text \<open>\<open>__cinit__\<close>: the fields are assigned in the source's order; the reference goes
  through its setter, the minimum overlap does not go through its own.\<close>

definition Aligner_init ::
  "string \<Rightarrow> real \<Rightarrow> int \<Rightarrow> bool \<Rightarrow> bool \<Rightarrow> bool \<Rightarrow> bool \<Rightarrow> bool \<Rightarrow> bool \<Rightarrow> error + aligner" where
  "Aligner_init r rate mo start_ref stop_ref start_q stop_q wr wq =
     (let a0 = \<lparr>self_m = 0, max_error_rate = rate,
                start_in_reference = start_ref, start_in_query = start_q,
                stop_in_reference = stop_ref, stop_in_query = stop_q,
                insertion_cost = 1, deletion_cost = 1, min_overlap = mo,
                wildcard_ref = wr, wildcard_query = wq,
                debug = False, dpmatrix = None,
                reference = [], str_reference = r\<rparr>
      in case set_reference a0 r of
           (Inl e, _) \<Rightarrow> Inl e
         | (Inr _, a1) \<Rightarrow> Inr a1)"




section \<open>\<open>Aligner.locate\<close>\<close>

text \<open>The cast \<open><int>\<close> of a double truncates toward zero.\<close>

definition int_of_double :: "real \<Rightarrow> int" where
  "int_of_double x = (if 0 \<le> x then \<lfloor>x\<rfloor> else \<lceil>x\<rceil>)"

definition max_errors :: "aligner \<Rightarrow> int" where
  "max_errors a = int_of_double (max_error_rate a * real_of_int (self_m a))"

definition max_n_of :: "aligner \<Rightarrow> int \<Rightarrow> int" where
  "max_n_of a n = (if \<not> start_in_query a then min n (self_m a + max_errors a) else n)"

definition min_n_of :: "aligner \<Rightarrow> int \<Rightarrow> int" where
  "min_n_of a n = (if \<not> stop_in_query a then max 0 (n - self_m a - max_errors a) else 0)"

text \<open>The four initialisation loops of column \<open>min_n\<close>, entry \<open>i\<close>.\<close>

definition seed_entry :: "aligner \<Rightarrow> int \<Rightarrow> int \<Rightarrow> Entry" where
  "seed_entry a min_n i =
     (if \<not> start_in_reference a \<and> \<not> start_in_query a then
        \<lparr>cost = max i min_n * insertion_cost a, matches = 0, origin = 0\<rparr>
      else if start_in_reference a \<and> \<not> start_in_query a then
        \<lparr>cost = min_n * insertion_cost a, matches = 0, origin = min 0 (min_n - i)\<rparr>
      else if \<not> start_in_reference a \<and> start_in_query a then
        \<lparr>cost = i * insertion_cost a, matches = 0, origin = max 0 (min_n - i)\<rparr>
      else
        \<lparr>cost = min i min_n * insertion_cost a, matches = 0, origin = min_n - i\<rparr>)"

text \<open>The column buffer has \<open>m + 1\<close> entries and every one of them is overwritten.\<close>

definition seed_column :: "aligner \<Rightarrow> int \<Rightarrow> Entry list" where
  "seed_column a min_n = map (\<lambda>i. seed_entry a min_n (int i)) [0..<nat (self_m a + 1)]"

definition characters_equal :: "bool \<Rightarrow> nat \<Rightarrow> nat \<Rightarrow> bool" where
  "characters_equal compare_ascii c1 c2 =
     (if compare_ascii then c1 = c2 else (c1 AND c2) \<noteq> 0)"

text \<open>One cell: \<open>diag_entry\<close>, the old \<open>column[i]\<close> and the new \<open>column[i-1]\<close> give the
  new \<open>column[i]\<close>.\<close>

definition new_entry :: "aligner \<Rightarrow> bool \<Rightarrow> Entry \<Rightarrow> Entry \<Rightarrow> Entry \<Rightarrow> Entry" where
  "new_entry a eq diag_entry col_i col_i1 =
     (if eq then
        \<lparr>cost = cost diag_entry, matches = matches diag_entry + 1, origin = origin diag_entry\<rparr>
      else
        (let cost_diag = cost diag_entry + 1;
             cost_deletion = cost col_i + deletion_cost a;
             cost_insertion = cost col_i1 + insertion_cost a
         in if cost_diag \<le> cost_deletion \<and> cost_diag \<le> cost_insertion then
              \<lparr>cost = cost_diag, matches = matches diag_entry, origin = origin diag_entry\<rparr>
            else if cost_insertion \<le> cost_deletion then
              \<lparr>cost = cost_insertion, matches = matches col_i1, origin = origin col_i1\<rparr>
            else
              \<lparr>cost = cost_deletion, matches = matches col_i, origin = origin col_i\<rparr>))"

text \<open>The loop \<open>for i in range(1, last + 1)\<close>, on the pair of \<open>diag_entry\<close> and the
  column; \<open>c2\<close> is \<open>s2[j-1]\<close>.\<close>

fun rows_loop ::
  "aligner \<Rightarrow> bool \<Rightarrow> bytes \<Rightarrow> nat \<Rightarrow> nat list \<Rightarrow> Entry \<times> Entry list \<Rightarrow> Entry \<times> Entry list" where
  "rows_loop a ca s1 c2 [] dc = dc"
| "rows_loop a ca s1 c2 (i # is) dc =
     rows_loop a ca s1 c2 is
       (snd dc ! i,
        (snd dc)[i := new_entry a (characters_equal ca (s1 ! (i - 1)) c2)
                        (fst dc) (snd dc ! i) (snd dc ! (i - 1))])"

text \<open>The first entry of column \<open>j\<close>.\<close>

definition first_entry :: "aligner \<Rightarrow> int \<Rightarrow> Entry \<Rightarrow> Entry" where
  "first_entry a j e =
     (if start_in_query a then e\<lparr>origin := j\<rparr> else e\<lparr>cost := j * insertion_cost a\<rparr>)"

definition fill_column ::
  "aligner \<Rightarrow> bool \<Rightarrow> bytes \<Rightarrow> bytes \<Rightarrow> int \<Rightarrow> int \<Rightarrow> Entry list \<Rightarrow> Entry list" where
  "fill_column a ca s1 s2 j last_i col =
     snd (rows_loop a ca s1 (s2 ! nat (j - 1)) [1..<nat (last_i + 1)]
            (col ! 0, col[0 := first_entry a j (col ! 0)]))"

text \<open>\<open>while last >= 0 and column[last].cost > k: last -= 1\<close>\<close>

function shrink_last :: "Entry list \<Rightarrow> int \<Rightarrow> int \<Rightarrow> int" where
  "shrink_last col k last_i =
     (if last_i \<ge> 0 \<and> cost (col ! nat last_i) > k then shrink_last col k (last_i - 1)
      else last_i)"
  by pat_completeness auto
termination
  by (relation "measure (\<lambda>(col, k, last_i). nat (last_i + 1))") auto

declare shrink_last.simps [simp del]

text \<open>The test shared by the bottom-row check and the search in the last column.\<close>

definition better :: "aligner \<Rightarrow> Match \<Rightarrow> int \<Rightarrow> Entry \<Rightarrow> bool" where
  "better a best_m len e =
     (len \<ge> min_overlap a \<and> real_of_int (cost e) \<le> real_of_int len * max_error_rate a
      \<and> (matches e > matches best_m \<or> (matches e = matches best_m \<and> cost e < cost best_m)))"

definition update_best :: "Entry \<Rightarrow> int \<Rightarrow> int \<Rightarrow> Match" where
  "update_best e rs qs =
     \<lparr>cost = cost e, matches = matches e, origin = origin e, ref_stop = rs, query_stop = qs\<rparr>"

record locals =
  column :: "Entry list"
  last_i :: int
  best :: Match
  dpm :: "DPMatrix option"

text \<open>The debugging writes of one column, rows \<open>0 .. last\<close>.\<close>

definition record_column :: "DPMatrix \<Rightarrow> Entry list \<Rightarrow> int \<Rightarrow> nat \<Rightarrow> DPMatrix" where
  "record_column dm col j cnt =
     fold (\<lambda>i d. put_entry d i (nat j) (cost (col ! i))) [0..<cnt] dm"

text \<open>The body of the loop over the columns; the flag says that the loop was left by
  \<open>break\<close>.\<close>

definition column_step ::
  "aligner \<Rightarrow> bool \<Rightarrow> bytes \<Rightarrow> int \<Rightarrow> int \<Rightarrow> locals \<Rightarrow> locals \<times> bool" where
  "column_step a ca s2 k j st =
     (let m = self_m a;
          col = fill_column a ca (reference a) s2 j (last_i st) (column st);
          d = (if debug a then map_option (\<lambda>dm. record_column dm col j (nat (last_i st + 1))) (dpm st)
               else dpm st);
          l = shrink_last col k (last_i st)
      in if l < m then (\<lparr>column = col, last_i = l + 1, best = best st, dpm = d\<rparr>, False)
         else if stop_in_query a then
           (let e = col ! nat m;
                len = m + min (origin e) 0
            in if better a (best st) len e then
                 (\<lparr>column = col, last_i = l, best = update_best e m j, dpm = d\<rparr>,
                  cost e = 0 \<and> matches e = m)
               else (\<lparr>column = col, last_i = l, best = best st, dpm = d\<rparr>, False))
         else (\<lparr>column = col, last_i = l, best = best st, dpm = d\<rparr>, False))"

fun columns_loop ::
  "aligner \<Rightarrow> bool \<Rightarrow> bytes \<Rightarrow> int \<Rightarrow> int list \<Rightarrow> locals \<Rightarrow> locals" where
  "columns_loop a ca s2 k [] st = st"
| "columns_loop a ca s2 k (j # js) st =
     (case column_step a ca s2 k j st of
        (st', brk) \<Rightarrow> if brk then st' else columns_loop a ca s2 k js st')"

text \<open>The search in the last column, \<open>for i in range(first_i, m + 1)\<close>.\<close>

fun last_column_loop :: "aligner \<Rightarrow> int \<Rightarrow> Entry list \<Rightarrow> nat list \<Rightarrow> Match \<Rightarrow> Match" where
  "last_column_loop a n col [] b = b"
| "last_column_loop a n col (i # is) b =
     last_column_loop a n col is
       (let e = col ! i; len = int i + min (origin e) 0
        in if better a b len e then update_best e (int i) n else b)"

type_synonym location = "int \<times> int \<times> int \<times> int \<times> int \<times> int"

text \<open>The query is translated like the reference; without wildcards the bytes are
  compared as they are.\<close>

definition translate_query :: "aligner \<Rightarrow> bytes \<Rightarrow> bytes" where
  "translate_query a query_bytes =
     (if wildcard_query a then translate query_bytes IUPAC_TABLE
      else if wildcard_ref a then translate query_bytes ACGT_TABLE
      else query_bytes)"

definition compare_ascii :: "aligner \<Rightarrow> bool" where
  "compare_ascii a = (\<not> wildcard_query a \<and> \<not> wildcard_ref a)"

text \<open>The locals of \<open>locate\<close> before the loop over the columns: the seed column (written
  to a new debugging matrix when debugging is enabled), the initial best match and the
  initial \<open>last\<close>.\<close>

definition initial_locals :: "aligner \<Rightarrow> string \<Rightarrow> locals" where
  "initial_locals a query =
     (let m = self_m a;
          n = int (length query);
          k = max_errors a;
          min_n = min_n_of a n;
          col0 = seed_column a min_n
      in \<lparr>column = col0,
          last_i = (if start_in_reference a then m else min m (k + 1)),
          best = \<lparr>cost = m + n, matches = 0, origin = 0, ref_stop = m, query_stop = n\<rparr>,
          dpm = (if debug a then
                   Some (record_column (DPMatrix_init (str_reference a) query) col0 min_n
                           (nat (m + 1)))
                 else dpmatrix a)\<rparr>)"

text \<open>The locals of \<open>locate\<close> when the search in the last column is over.\<close>

definition locate_locals :: "aligner \<Rightarrow> string \<Rightarrow> bytes \<Rightarrow> locals" where
  "locate_locals a query query_bytes =
     (let m = self_m a;
          n = int (length query);
          st = columns_loop a (compare_ascii a) (translate_query a query_bytes) (max_errors a)
                 [min_n_of a n + 1..max_n_of a n] (initial_locals a query)
      in if max_n_of a n = n then
           st\<lparr>best := last_column_loop a n (column st)
                         [nat (if stop_in_reference a then 0 else m)..<nat (m + 1)] (best st)\<rparr>
         else st)"

definition locate_return :: "aligner \<Rightarrow> int \<Rightarrow> Match \<Rightarrow> error + location option" where
  "locate_return a n b =
     (if cost b = self_m a + n then Inr None
      else
        (let start1 = (if origin b \<ge> 0 then 0 else - origin b);
             start2 = (if origin b \<ge> 0 then origin b else 0)
         in if ref_stop b - start1 > 0 then
              Inr (Some (start1, ref_stop b, start2, query_stop b, matches b, cost b))
            else Inl AssertionError))"

text \<open>\<open>locate\<close> returns its result (or the exception raised) and leaves the aligner with
  the new debugging matrix. With debugging enabled, the first write of the seed column
  raises when column \<open>min_n\<close> is not a column of the new matrix; the later writes are in
  rows up to \<open>last\<close> and columns up to \<open>max_n\<close>, which the matrix has.\<close>

definition locate :: "aligner \<Rightarrow> string \<Rightarrow> (error + location option) \<times> aligner" where
  "locate a query =
     (case encode_ascii query of
        Inl e \<Rightarrow> (Inl e, a)
      | Inr query_bytes \<Rightarrow>
          if debug a \<and> int (length query) < min_n_of a (int (length query)) then
            (Inl IndexError, a\<lparr>dpmatrix := Some (DPMatrix_init (str_reference a) query)\<rparr>)
          else
            (let st = locate_locals a query query_bytes
             in (locate_return a (int (length query)) (best st), a\<lparr>dpmatrix := dpm st\<rparr>)))"

section \<open>\<open>compare_prefixes\<close>\<close>

text \<open>The two counting loops \<open>for i in range(length)\<close>.\<close>

fun count_loop :: "(nat \<Rightarrow> bool) \<Rightarrow> nat list \<Rightarrow> int \<Rightarrow> int" where
  "count_loop p [] matches_v = matches_v"
| "count_loop p (i # is) matches_v = count_loop p is (if p i then matches_v + 1 else matches_v)"

definition compare_prefixes :: "string \<Rightarrow> string \<Rightarrow> bool \<Rightarrow> bool \<Rightarrow> error + location" where
  "compare_prefixes ref query wr wq =
     (case encode_ascii query of
        Inl e \<Rightarrow> Inl e
      | Inr query_bytes0 \<Rightarrow>
         (case encode_ascii ref of
            Inl e \<Rightarrow> Inl e
          | Inr ref_bytes0 \<Rightarrow>
             (let m = int (length ref);
                  n = int (length query);
                  len = min m n;
                  ref_bytes = (if wr then translate ref_bytes0 IUPAC_TABLE
                               else if wq then translate ref_bytes0 ACGT_TABLE
                               else ref_bytes0);
                  compare_ascii = (\<not> wr \<and> \<not> wq);
                  query_bytes = (if wq then translate query_bytes0 IUPAC_TABLE
                                 else if wr then translate query_bytes0 ACGT_TABLE
                                 else query_bytes0);
                  matches_v =
                    (if compare_ascii then
                       count_loop (\<lambda>i. ref ! i = query ! i) [0..<nat len] 0
                     else
                       count_loop (\<lambda>i. (ref_bytes ! i AND query_bytes ! i) \<noteq> 0) [0..<nat len] 0)
              in Inr (0, len, 0, len, matches_v, len - matches_v))))"

section \<open>Aligners that the program can build\<close>


definition aligner_inv :: "aligner \<Rightarrow> bool" where
  "aligner_inv a =
     (is_ascii (str_reference a) \<and>
      reference a =
        (if wildcard_ref a then translate (map of_char (str_reference a)) IUPAC_TABLE
         else if wildcard_query a then translate (map of_char (str_reference a)) ACGT_TABLE
         else map of_char (str_reference a)) \<and>
      self_m a = int (length (str_reference a)) \<and>
      1 \<le> insertion_cost a \<and> 1 \<le> deletion_cost a)"

subsection \<open>Two aligners used as examples\<close>


definition aa_aligner :: aligner where
  "aa_aligner = projr (Aligner_init ''A'' 0 1 True True True True False False)"

text \<open>The locals of \<open>locate\<close> on the query \<open>AA\<close> before the first column is computed.\<close>

definition aa_locals :: locals where
  "aa_locals = \<lparr>column = seed_column aa_aligner 0, last_i = 1,
      best = \<lparr>cost = 3, matches = 0, origin = 0, ref_stop = 1, query_stop = 2\<rparr>, dpm = None\<rparr>"

section \<open>Notions used to state the properties\<close>

text \<open>The comparison of two characters as the specification tabulates it by the two
  wildcard flags: equality of the characters without wildcards, otherwise a common bit of
  the reference's code (IUPAC if \<open>wildcard_ref\<close>, else ACGT) and the query's code (IUPAC
  if \<open>wildcard_query\<close>, else ACGT).\<close>

definition spec_characters_match :: "bool \<Rightarrow> bool \<Rightarrow> char \<Rightarrow> char \<Rightarrow> bool" where
  "spec_characters_match wr wq c1 c2 =
     (if \<not> wr \<and> \<not> wq then c1 = c2
      else if wr \<and> \<not> wq then (IUPAC_TABLE (of_char c1) AND ACGT_TABLE (of_char c2)) \<noteq> 0
      else if \<not> wr \<and> wq then (ACGT_TABLE (of_char c1) AND IUPAC_TABLE (of_char c2)) \<noteq> 0
      else (IUPAC_TABLE (of_char c1) AND IUPAC_TABLE (of_char c2)) \<noteq> 0)"




subsection \<open>Invariants of the search\<close>






subsection \<open>The columns of the debugging matrix that were written\<close>



subsection \<open>Three more example aligners\<close>




subsection \<open>The shape of the debugging matrix\<close>

text \<open>The matrix made for a query has \<open>m + 1\<close> rows of \<open>n + 1\<close> entries.\<close>

definition dpm_shape :: "aligner \<Rightarrow> string \<Rightarrow> DPMatrix option \<Rightarrow> bool" where
  "dpm_shape a query d =
     (case d of None \<Rightarrow> True
      | Some dm \<Rightarrow> length (rows dm) = nat (self_m a + 1) \<and>
          list_all (\<lambda>row. length row = length query + 1) (rows dm))"

section \<open>Reachable aligners are consistent\<close>






section \<open>The property setters\<close>



section \<open>The seed column\<close>



section \<open>The recurrence of a column\<close>





section \<open>Leaving the loop over the columns\<close>

text \<open>
  C5. When, after column \<open>j\<close>, the band reaches the last row, \<open>stop_in_query\<close> is set, and
  the bottom cell is accepted as the new best with cost 0 and \<open>m\<close> matches, the loop
  ends there: whatever columns were still to come, the column buffer and the best match
  are those of column \<open>j\<close>.
\<close>

theorem early_exit:
  assumes "col = fill_column a ca (reference a) s2 j (last_i st) (column st)"
    and "\<not> shrink_last col k (last_i st) < self_m a"
    and "stop_in_query a"
    and "e = col ! nat (self_m a)"
    and "better a (best st) (self_m a + min (origin e) 0) e"
    and "cost e = 0" and "matches e = self_m a"
  shows "column (columns_loop a ca s2 k (j # js) st) = col \<and>
         best (columns_loop a ca s2 k (j # js) st) = update_best e (self_m a) j \<and>
         columns_loop a ca s2 k (j # js) st = columns_loop a ca s2 k [j] st"
  using assms by (simp add: column_step_def Let_def)

text \<open>The reference \<open>A\<close> occurs twice in the query \<open>AA\<close>; the first occurrence is kept.\<close>

theorem early_exit_witness:
  "best (columns_loop aa_aligner True [65, 65] 0 [1, 2] aa_locals) =
     \<lparr>cost = 0, matches = 1, origin = 0, ref_stop = 1, query_stop = 1\<rparr> \<and>
   columns_loop aa_aligner True [65, 65] 0 [1, 2] aa_locals =
     columns_loop aa_aligner True [65, 65] 0 [1] aa_locals"
proof -
  define col where "col = fill_column aa_aligner True (reference aa_aligner) [65, 65] 1
      (last_i aa_locals) (column aa_locals)"
  define e where "e = col ! nat (self_m aa_aligner)"
  have e: "e = \<lparr>cost = 0, matches = 1, origin = 0\<rparr>"
    unfolding e_def col_def aa_locals_def aa_aligner_def by code_simp
  have h2: "\<not> shrink_last col 0 (last_i aa_locals) < self_m aa_aligner"
    unfolding col_def aa_locals_def aa_aligner_def by code_simp
  have h3: "stop_in_query aa_aligner" unfolding aa_aligner_def by code_simp
  have h5: "better aa_aligner (best aa_locals) (self_m aa_aligner + min (origin e) 0) e"
    unfolding e aa_locals_def aa_aligner_def by code_simp
  have h6: "cost e = 0" by (simp add: e)
  have h7: "matches e = self_m aa_aligner" unfolding e aa_aligner_def by code_simp
  have m: "self_m aa_aligner = 1" unfolding aa_aligner_def by code_simp
  note r = early_exit [OF col_def h2 h3 e_def h5 h6 h7, of "[2]"]
  have "best (columns_loop aa_aligner True [65, 65] 0 [1, 2] aa_locals) =
     \<lparr>cost = 0, matches = 1, origin = 0, ref_stop = 1, query_stop = 1\<rparr>"
    using r [THEN conjunct2, THEN conjunct1]
    by (simp add: e update_best_def m del: columns_loop.simps)
  then show ?thesis using r [THEN conjunct2, THEN conjunct2] by (rule conjI)
qed

section \<open>The example of the documentation\<close>

text \<open>
  C8. The aligner built for the reference \<open>MISSISSIPPI\<close> with a maximum error rate of 0.1,
  all four boundary flags set, unit insertion and deletion costs and no wildcards locates
  the query \<open>SISSI\<close> at \<open>(3, 8, 0, 5, 5, 0)\<close>.
\<close>

theorem mississippi:
  "(case Aligner_init ''MISSISSIPPI'' (1 / 10) 1 True True True True False False of
      Inl e \<Rightarrow> Inl e
    | Inr a \<Rightarrow> fst (locate a ''SISSI'')) = Inr (Some (3, 8, 0, 5, 5, 0))"
  by code_simp

section \<open>The prefix comparison\<close>

lemma count_loop_filter: "count_loop p is acc = acc + int (length (filter p is))"
  by (induction "is" arbitrary: acc) simp_all

lemma encode_ascii_ok: "is_ascii s \<Longrightarrow> encode_ascii s = Inr (map of_char s)"
  by (simp add: encode_ascii_def)

text \<open>
  C6. For ASCII strings, \<open>compare_prefixes\<close> always returns a tuple: with \<open>length\<close> the
  smaller of the two lengths, it is \<open>(0, length, 0, length, matches, length - matches)\<close>,
  where \<open>matches\<close> counts the positions below \<open>length\<close> whose characters match in the mode
  of the wildcard flags. A string compared with itself without wildcards matches at every
  position.
\<close>

theorem compare_prefixes_counts:
  assumes "is_ascii ref" and "is_ascii query"
  shows "compare_prefixes ref query wr wq =
      Inr (0, int (min (length ref) (length query)), 0, int (min (length ref) (length query)),
           int (length (filter (\<lambda>i. spec_characters_match wr wq (ref ! i) (query ! i))
                  [0..<min (length ref) (length query)])),
           int (min (length ref) (length query)) -
           int (length (filter (\<lambda>i. spec_characters_match wr wq (ref ! i) (query ! i))
                  [0..<min (length ref) (length query)]))) \<and>
    compare_prefixes ref ref False False =
      Inr (0, int (length ref), 0, int (length ref), int (length ref), 0)"
proof -
  define L where "L = min (length ref) (length query)"
  have nL: "nat (min (int (length ref)) (int (length query))) = L"
    by (simp add: L_def)
  have iL: "min (int (length ref)) (int (length query)) = int L"
    by (simp add: L_def)
  have flt: "filter (\<lambda>i. (f (map of_char ref) ! i AND g (map of_char query) ! i) \<noteq> 0) [0..<L] =
      filter (\<lambda>i. (f' (of_char (ref ! i)) AND g' (of_char (query ! i))) \<noteq> 0) [0..<L]"
    if "\<And>bs. f bs = map f' bs" "\<And>bs. g bs = map g' bs" for f g :: "bytes \<Rightarrow> bytes" and f' g'
    by (rule filter_cong) (simp_all add: that L_def)
  have first: "compare_prefixes ref query wr wq =
      Inr (0, int L, 0, int L,
           int (length (filter (\<lambda>i. spec_characters_match wr wq (ref ! i) (query ! i)) [0..<L])),
           int L - int (length (filter (\<lambda>i. spec_characters_match wr wq (ref ! i) (query ! i)) [0..<L])))"
  proof (cases wr; cases wq)
    assume "wr" "wq"
    then show ?thesis
      using flt [of "\<lambda>bs. translate bs IUPAC_TABLE" IUPAC_TABLE "\<lambda>bs. translate bs IUPAC_TABLE" IUPAC_TABLE]
      by (simp add: compare_prefixes_def encode_ascii_ok assms Let_def nL iL count_loop_filter
          spec_characters_match_def translate_def)
  next
    assume "wr" "\<not> wq"
    then show ?thesis
      using flt [of "\<lambda>bs. translate bs IUPAC_TABLE" IUPAC_TABLE "\<lambda>bs. translate bs ACGT_TABLE" ACGT_TABLE]
      by (simp add: compare_prefixes_def encode_ascii_ok assms Let_def nL iL count_loop_filter
          spec_characters_match_def translate_def)
  next
    assume "\<not> wr" "wq"
    then show ?thesis
      using flt [of "\<lambda>bs. translate bs ACGT_TABLE" ACGT_TABLE "\<lambda>bs. translate bs IUPAC_TABLE" IUPAC_TABLE]
      by (simp add: compare_prefixes_def encode_ascii_ok assms Let_def nL iL count_loop_filter
          spec_characters_match_def translate_def)
  next
    assume "\<not> wr" "\<not> wq"
    then show ?thesis
      by (simp add: compare_prefixes_def encode_ascii_ok assms Let_def nL iL count_loop_filter
          spec_characters_match_def)
  qed
  have second: "compare_prefixes ref ref False False =
      Inr (0, int (length ref), 0, int (length ref), int (length ref), 0)"
    by (simp add: compare_prefixes_def encode_ascii_ok assms Let_def count_loop_filter)
  show ?thesis using first second by (simp add: L_def)
qed

theorem compare_prefixes_counts_witness:
  "compare_prefixes ''NCGT'' ''ACGAT'' True False = Inr (0, 4, 0, 4, 3, 1) \<and>
   compare_prefixes ''NCGT'' ''NCGT'' False False = Inr (0, 4, 0, 4, 4, 0)"
proof -
  have h1: "is_ascii ''NCGT''" by code_simp
  have h2: "is_ascii ''ACGAT''" by code_simp
  have c: "int (length (filter (\<lambda>i. spec_characters_match True False (''NCGT'' ! i) (''ACGAT'' ! i))
                  [0..<min (length ''NCGT'') (length ''ACGAT'')])) = 3"
    by code_simp
  from compare_prefixes_counts [OF h1 h2, of True False] show ?thesis
    unfolding c by simp
qed


section \<open>Determinism of the search\<close>















section \<open>The search keeps its invariants\<close>






















section \<open>The tuple that is returned\<close>













section \<open>The window of columns\<close>













section \<open>The debugging writes\<close>

lemma put_entry_shape:
  "dpm_shape a q (Some dm) \<Longrightarrow> dpm_shape a q (Some (put_entry dm i j c))"
proof -
  assume s: "dpm_shape a q (Some dm)"
  have "length row = length q + 1" if "row \<in> set ((rows dm)[i := (rows dm ! i)[j := Some c]])" for row
  proof (cases "i < length (rows dm)")
    case True
    then have "row = (rows dm ! i)[j := Some c] \<or> row \<in> set (rows dm)"
      using that set_update_subset_insert [of "rows dm" i "(rows dm ! i)[j := Some c]"] by auto
    moreover have "rows dm ! i \<in> set (rows dm)" using True by simp
    ultimately show ?thesis using s by (auto simp: dpm_shape_def list_all_iff)
  next
    case False
    then have "(rows dm)[i := (rows dm ! i)[j := Some c]] = rows dm"
      by (intro list_update_beyond) simp
    then show ?thesis using that s by (simp add: dpm_shape_def list_all_iff)
  qed
  then show ?thesis using s by (simp add: dpm_shape_def put_entry_def list_all_iff)
qed

lemma record_column_shape:
  "dpm_shape a q (Some dm) \<Longrightarrow> dpm_shape a q (Some (record_column dm col j cnt))"
proof -
  have "dpm_shape a q (Some dm) \<Longrightarrow>
      dpm_shape a q (Some (fold (\<lambda>i d. put_entry d i (nat j) (cost (col ! i))) is dm))" for "is"
    by (induction "is" arbitrary: dm) (simp_all add: put_entry_shape)
  then show "dpm_shape a q (Some dm) \<Longrightarrow> dpm_shape a q (Some (record_column dm col j cnt))"
    by (simp add: record_column_def)
qed

lemma column_step_shape:
  "dpm_shape a q (dpm st) \<Longrightarrow> dpm_shape a q (dpm (fst (column_step a ca s2 k j st)))"
proof -
  assume s: "dpm_shape a q (dpm st)"
  have "dpm_shape a q (map_option (\<lambda>dm. record_column dm col j cnt) (dpm st))" for col cnt
  proof (cases "dpm st")
    case None
    then show ?thesis by (simp add: dpm_shape_def)
  next
    case (Some dm)
    then show ?thesis using record_column_shape [of a q dm col j cnt] s by simp
  qed
  then show ?thesis using s by (simp add: column_step_def Let_def)
qed

lemma columns_loop_shape:
  "dpm_shape a q (dpm st) \<Longrightarrow> dpm_shape a q (dpm (columns_loop a ca s2 k js st))"
proof (induction js arbitrary: st)
  case Nil
  then show ?case by simp
next
  case (Cons j js)
  have "dpm_shape a q (dpm (fst (column_step a ca s2 k j st)))"
    using Cons.prems by (rule column_step_shape)
  then show ?case using Cons.IH [of "fst (column_step a ca s2 k j st)"]
    by (simp add: split_beta)
qed

text \<open>The debugging writes of row \<open>i \<le> last \<le> m\<close> and column \<open>j \<le> n\<close> are inside a matrix
  of that shape, where \<open>set_entry\<close> does not raise; the first write of a seed column
  \<open>min_n > n\<close> raises.\<close>

lemma column_writes_inside:
  assumes "dpm_shape a q (Some dm)" and "last_v \<le> self_m a" and "0 \<le> j" and "j \<le> int (length q)"
    and "i < nat (last_v + 1)"
  shows "set_entry dm i (nat j) c = Inr (put_entry dm i (nat j) c)"
proof -
  have i: "i < length (rows dm)" using assms(1,2,5) by (simp add: dpm_shape_def)
  then have "length (rows dm ! i) = length q + 1"
    using assms(1) by (simp add: dpm_shape_def list_all_length)
  then show ?thesis using i assms(3,4) by (simp add: set_entry_def)
qed

lemma initial_shape:
  assumes "aligner_inv a"
  shows "dpm_shape a q (Some (DPMatrix_init (str_reference a) q))"
  using assms by (simp add: dpm_shape_def DPMatrix_init_def aligner_inv_def list_all_iff)

lemma seed_write_outside:
  assumes "int (length q) < min_n"
  shows "set_entry (DPMatrix_init r q) 0 (nat min_n) c = Inl IndexError"
  using assms by (simp add: set_entry_def DPMatrix_init_def)

end
